theory Spec2Isabelle
  imports Complex_Main "HOL-Library.Word"
begin

section \<open>Python numbers as the parameter widgets see them\<close>

text \<open>
  \<^verbatim>\<open>NumParameter\<close> is dynamically typed on its value: \<^verbatim>\<open>self._type = type(value)\<close>.
  A Python \<^verbatim>\<open>int\<close> is an unbounded integer; a Python \<^verbatim>\<open>float\<close> is idealised as a rational
  number (binary rounding of the hardware format is not modelled). The properties of the
  toolkit's widgets (\<^verbatim>\<open>QSpinBox\<close>, \<^verbatim>\<open>QSlider\<close>) are modelled as mathematical integers.
\<close>

datatype pynum = PInt int | PFloat rat

datatype pytype = TInt | TFloat

fun py_type :: "pynum \<Rightarrow> pytype" where
  "py_type (PInt _) = TInt"
| "py_type (PFloat _) = TFloat"

text \<open>Truthiness of an optional number, as in \<^verbatim>\<open>if single_step:\<close>.\<close>

fun py_truthy :: "pynum option \<Rightarrow> bool" where
  "py_truthy None = False"
| "py_truthy (Some (PInt i)) = (i \<noteq> 0)"
| "py_truthy (Some (PFloat q)) = (q \<noteq> 0)"

text \<open>\<^verbatim>\<open>value * 100\<close> and \<^verbatim>\<open>value / 100.0\<close>.\<close>

fun times100 :: "pynum \<Rightarrow> pynum" where
  "times100 (PInt i) = PInt (i * 100)"
| "times100 (PFloat q) = PFloat (q * 100)"

fun to_double :: "pynum \<Rightarrow> rat" where
  "to_double (PInt i) = of_int i"
| "to_double (PFloat q) = q"

definition div100 :: "pynum \<Rightarrow> pynum" where
  "div100 v = PFloat (to_double v / 100)"

text \<open>
  A number handed to a toolkit method that takes a C \<^verbatim>\<open>int\<close>: a float is truncated
  towards zero (\<^verbatim>\<open>self.slider.setValue(value * 100)\<close> relies on it). \<^verbatim>\<open>int(x)\<close> of
  Python truncates the same way.
\<close>

definition trunc :: "rat \<Rightarrow> int" where
  "trunc q = (if q < 0 then - \<lfloor>- q\<rfloor> else \<lfloor>q\<rfloor>)"

fun to_cint :: "pynum \<Rightarrow> int" where
  "to_cint (PInt i) = i"
| "to_cint (PFloat q) = trunc q"

text \<open>
  \<^verbatim>\<open>QDoubleSpinBox\<close> keeps two decimals (its default): every value, minimum and maximum it
  stores is rounded to the nearest hundredth, halves away from zero.
\<close>

definition round2 :: "rat \<Rightarrow> rat" where
  "round2 q = (if q < 0 then - (of_int (round (- q * 100)) / 100)
               else of_int (round (q * 100)) / 100)"

section \<open>The toolkit's widgets\<close>

text \<open>
  A spin box stores a range, a value inside it and a step. \<^verbatim>\<open>setValue\<close> bounds the new
  value by the range; \<^verbatim>\<open>setRange(min, max)\<close> stores \<^verbatim>\<open>min\<close>, stores \<^verbatim>\<open>max\<close> when \<^verbatim>\<open>min < max\<close>
  and \<^verbatim>\<open>min\<close> otherwise, and bounds the value again; \<^verbatim>\<open>setSingleStep\<close> ignores a negative step.
\<close>

record 'a spinbox =
  sb_minimum :: 'a
  sb_maximum :: 'a
  sb_value :: 'a
  sb_singleStep :: 'a

definition sb_bound :: "'a::linorder spinbox \<Rightarrow> 'a \<Rightarrow> 'a" where
  "sb_bound b v = (if v < sb_minimum b then sb_minimum b
                   else if sb_maximum b < v then sb_maximum b else v)"

definition sb_setValue :: "'a::linorder spinbox \<Rightarrow> 'a \<Rightarrow> 'a spinbox" where
  "sb_setValue b v = b\<lparr>sb_value := sb_bound b v\<rparr>"

definition sb_setRange :: "'a::linorder spinbox \<Rightarrow> 'a \<Rightarrow> 'a \<Rightarrow> 'a spinbox" where
  "sb_setRange b lo hi =
     (let b' = b\<lparr>sb_minimum := lo, sb_maximum := (if lo < hi then hi else lo)\<rparr>
      in b'\<lparr>sb_value := sb_bound b' (sb_value b')\<rparr>)"

definition sb_setSingleStep :: "('a::{linorder,zero}) spinbox \<Rightarrow> 'a \<Rightarrow> 'a spinbox" where
  "sb_setSingleStep b s = (if 0 \<le> s then b\<lparr>sb_singleStep := s\<rparr> else b)"

text \<open>The edit field is a \<^verbatim>\<open>QSpinBox\<close> for an integer parameter, a \<^verbatim>\<open>QDoubleSpinBox\<close> otherwise.\<close>

datatype field = QSpinBox "int spinbox" | QDoubleSpinBox "rat spinbox"

definition new_QSpinBox :: field where
  "new_QSpinBox = QSpinBox \<lparr>sb_minimum = 0, sb_maximum = 99, sb_value = 0, sb_singleStep = 1\<rparr>"

definition new_QDoubleSpinBox :: field where
  "new_QDoubleSpinBox =
     QDoubleSpinBox \<lparr>sb_minimum = 0, sb_maximum = 9999 / 100, sb_value = 0, sb_singleStep = 1\<rparr>"

fun fld_setValue :: "field \<Rightarrow> pynum \<Rightarrow> field" where
  "fld_setValue (QSpinBox b) v = QSpinBox (sb_setValue b (to_cint v))"
| "fld_setValue (QDoubleSpinBox b) v = QDoubleSpinBox (sb_setValue b (round2 (to_double v)))"

fun fld_setRange :: "field \<Rightarrow> pynum \<Rightarrow> pynum \<Rightarrow> field" where
  "fld_setRange (QSpinBox b) lo hi = QSpinBox (sb_setRange b (to_cint lo) (to_cint hi))"
| "fld_setRange (QDoubleSpinBox b) lo hi =
     QDoubleSpinBox (sb_setRange b (round2 (to_double lo)) (round2 (to_double hi)))"

fun fld_setSingleStep :: "field \<Rightarrow> pynum \<Rightarrow> field" where
  "fld_setSingleStep (QSpinBox b) s = QSpinBox (sb_setSingleStep b (to_cint s))"
| "fld_setSingleStep (QDoubleSpinBox b) s = QDoubleSpinBox (sb_setSingleStep b (to_double s))"

fun fld_value :: "field \<Rightarrow> pynum" where
  "fld_value (QSpinBox b) = PInt (sb_value b)"
| "fld_value (QDoubleSpinBox b) = PFloat (sb_value b)"

fun fld_minimum :: "field \<Rightarrow> pynum" where
  "fld_minimum (QSpinBox b) = PInt (sb_minimum b)"
| "fld_minimum (QDoubleSpinBox b) = PFloat (sb_minimum b)"

fun fld_maximum :: "field \<Rightarrow> pynum" where
  "fld_maximum (QSpinBox b) = PInt (sb_maximum b)"
| "fld_maximum (QDoubleSpinBox b) = PFloat (sb_maximum b)"

text \<open>
  The slider: \<^verbatim>\<open>setValue\<close> bounds by \<^verbatim>\<open>max(min, min(max, v))\<close>; \<^verbatim>\<open>setRange(min, max)\<close> stores
  \<^verbatim>\<open>min\<close> and \<^verbatim>\<open>max(min, max)\<close> and bounds the value again; the step is stored as its
  absolute value.
\<close>

record qslider =
  sl_minimum :: int
  sl_maximum :: int
  sl_value :: int
  sl_singleStep :: int

definition new_QSlider :: qslider where
  "new_QSlider = \<lparr>sl_minimum = 0, sl_maximum = 99, sl_value = 0, sl_singleStep = 1\<rparr>"

definition sl_setValue :: "qslider \<Rightarrow> int \<Rightarrow> qslider" where
  "sl_setValue s v = s\<lparr>sl_value := max (sl_minimum s) (min (sl_maximum s) v)\<rparr>"

definition sl_setRange :: "qslider \<Rightarrow> int \<Rightarrow> int \<Rightarrow> qslider" where
  "sl_setRange s lo hi = sl_setValue (s\<lparr>sl_minimum := lo, sl_maximum := max lo hi\<rparr>) (sl_value s)"

definition sl_setSingleStep :: "qslider \<Rightarrow> int \<Rightarrow> qslider" where
  "sl_setSingleStep s v = s\<lparr>sl_singleStep := \<bar>v\<bar>\<rparr>"

section \<open>NumParameter\<close>

text \<open>
  The state of one \<^verbatim>\<open>NumParameter\<close>: its type tag, its two widgets, the default value, the
  \<^verbatim>\<open>blockSignals\<close> flag of the field, of the slider and of the parameter itself, whether the
  widgets' \<^verbatim>\<open>valueChanged\<close> signals are already connected to the two handlers (the
  constructor connects them last), and the number of \<^verbatim>\<open>valueChanged\<close> notifications the
  parameter has delivered so far.
\<close>

record NumParameter =
  p_type :: pytype
  field :: field
  slider :: qslider
  dvalue :: pynum
  field_blocked :: bool
  slider_blocked :: bool
  self_blocked :: bool
  connected :: bool
  emitted :: nat

text \<open>\<^verbatim>\<open>self.valueChanged.emit()\<close>: a blocked object delivers nothing.\<close>

definition NumParameter_valueChanged_emit :: "NumParameter \<Rightarrow> NumParameter" where
  "NumParameter_valueChanged_emit p = (if self_blocked p then p else p\<lparr>emitted := emitted p + 1\<rparr>)"

text \<open>
  The two handlers. Each blocks the other widget while it writes to it, so the write
  delivers no signal, and then emits once.
\<close>

definition NumParameter_updateValueFromField :: "NumParameter \<Rightarrow> pynum \<Rightarrow> NumParameter" where
  "NumParameter_updateValueFromField p v =
     (let p1 = p\<lparr>slider_blocked := True\<rparr>;
          v1 = (if p_type p1 = TFloat then times100 v else v);
          p2 = p1\<lparr>slider := sl_setValue (slider p1) (to_cint v1)\<rparr>;
          p3 = p2\<lparr>slider_blocked := False\<rparr>
      in NumParameter_valueChanged_emit p3)"

definition NumParameter_updateValueFromSlider :: "NumParameter \<Rightarrow> pynum \<Rightarrow> NumParameter" where
  "NumParameter_updateValueFromSlider p v =
     (let p1 = p\<lparr>field_blocked := True\<rparr>;
          v1 = (if p_type p1 = TFloat then div100 v else v);
          p2 = p1\<lparr>field := fld_setValue (field p1) v1\<rparr>;
          p3 = p2\<lparr>field_blocked := False\<rparr>
      in NumParameter_valueChanged_emit p3)"

text \<open>
  A widget whose value has changed emits its own \<^verbatim>\<open>valueChanged\<close>, which runs the connected
  handler unless the widget's signals are blocked.
\<close>

definition field_notify :: "pynum \<Rightarrow> NumParameter \<Rightarrow> NumParameter" where
  "field_notify old p =
     (if fld_value (field p) \<noteq> old \<and> \<not> field_blocked p \<and> connected p
      then NumParameter_updateValueFromField p (fld_value (field p)) else p)"

definition slider_notify :: "int \<Rightarrow> NumParameter \<Rightarrow> NumParameter" where
  "slider_notify old p =
     (if sl_value (slider p) \<noteq> old \<and> \<not> slider_blocked p \<and> connected p
      then NumParameter_updateValueFromSlider p (PInt (sl_value (slider p))) else p)"

definition field_setValue :: "NumParameter \<Rightarrow> pynum \<Rightarrow> NumParameter" where
  "field_setValue p v =
     field_notify (fld_value (field p)) (p\<lparr>field := fld_setValue (field p) v\<rparr>)"

definition slider_setValue :: "NumParameter \<Rightarrow> pynum \<Rightarrow> NumParameter" where
  "slider_setValue p v =
     slider_notify (sl_value (slider p)) (p\<lparr>slider := sl_setValue (slider p) (to_cint v)\<rparr>)"

definition field_setRange :: "NumParameter \<Rightarrow> pynum \<Rightarrow> pynum \<Rightarrow> NumParameter" where
  "field_setRange p lo hi =
     field_notify (fld_value (field p)) (p\<lparr>field := fld_setRange (field p) lo hi\<rparr>)"

definition slider_setRange :: "NumParameter \<Rightarrow> pynum \<Rightarrow> pynum \<Rightarrow> NumParameter" where
  "slider_setRange p lo hi =
     slider_notify (sl_value (slider p))
       (p\<lparr>slider := sl_setRange (slider p) (to_cint lo) (to_cint hi)\<rparr>)"

definition NumParameter_setRange :: "NumParameter \<Rightarrow> pynum \<Rightarrow> pynum \<Rightarrow> NumParameter" where
  "NumParameter_setRange p min_value max_value =
     (let p1 = p\<lparr>self_blocked := True\<rparr>;
          p2 = field_setRange p1 min_value max_value;
          p3 = (if p_type p2 = TInt then slider_setRange p2 min_value max_value
                else slider_setRange p2 (times100 min_value) (times100 max_value))
      in p3\<lparr>self_blocked := False\<rparr>)"

definition NumParameter_setSingleStep :: "NumParameter \<Rightarrow> pynum \<Rightarrow> NumParameter" where
  "NumParameter_setSingleStep p v =
     (let p1 = p\<lparr>self_blocked := True\<rparr>;
          p2 = p1\<lparr>field := fld_setSingleStep (field p1) v\<rparr>;
          p3 = (if p_type p2 = TInt
                then p2\<lparr>slider := sl_setSingleStep (slider p2) (to_cint v)\<rparr>
                else p2\<lparr>slider := sl_setSingleStep (slider p2) (to_cint (times100 v))\<rparr>)
      in p3\<lparr>self_blocked := False\<rparr>)"

definition NumParameter_setDefaultValue :: "NumParameter \<Rightarrow> pynum \<Rightarrow> NumParameter" where
  "NumParameter_setDefaultValue p v = p\<lparr>dvalue := v\<rparr>"


definition NumParameter_setValue :: "NumParameter \<Rightarrow> pynum \<Rightarrow> bool \<Rightarrow> NumParameter" where
  "NumParameter_setValue p v use_as_default =
     (let p1 = p\<lparr>field_blocked := True, slider_blocked := True\<rparr>;
          p2 = (if use_as_default then NumParameter_setDefaultValue p1 v else p1);
          p3 = field_setValue p2 v;
          p4 = (if p_type p3 = TInt then slider_setValue p3 v
                else slider_setValue p3 (times100 v));
          p5 = p4\<lparr>field_blocked := False, slider_blocked := False\<rparr>
      in NumParameter_valueChanged_emit p5)"

definition NumParameter_resetToDefault :: "NumParameter \<Rightarrow> NumParameter" where
  "NumParameter_resetToDefault p = NumParameter_setValue p (dvalue p) False"

definition NumParameter_value :: "NumParameter \<Rightarrow> pynum" where
  "NumParameter_value p = (if p_type p = TInt then PInt (to_cint (fld_value (field p)))
              else fld_value (field p))"

text \<open>
  The constructor. The attribute \<^verbatim>\<open>_dvalue\<close> is created by the assignment after the first
  \<^verbatim>\<open>setValue\<close>, which does not read it; the record holds the initial value from the start.
\<close>

definition NumParameter_init ::
  "pynum \<Rightarrow> (pynum \<times> pynum) option \<Rightarrow> pynum option \<Rightarrow> NumParameter" where
  "NumParameter_init v value_range single_step =
     (let p0 = \<lparr>p_type = py_type v,
                field = (if py_type v = TInt then new_QSpinBox else new_QDoubleSpinBox),
                slider = new_QSlider, dvalue = v,
                field_blocked = False, slider_blocked = False, self_blocked = False,
                connected = False, emitted = 0\<rparr>;
          p1 = (case value_range of
                  Some (lo, hi) \<Rightarrow> NumParameter_setRange p0 lo hi
                | None \<Rightarrow> if p_type p0 = TInt then NumParameter_setRange p0 (PInt 0) (PInt 4096)
                          else NumParameter_setRange p0 (PInt 0) (PInt 100));
          p2 = (case single_step of
                  Some s \<Rightarrow> if py_truthy (Some s) then NumParameter_setSingleStep p1 s else p1
                | None \<Rightarrow> p1);
          p3 = NumParameter_setValue p2 v False;
          p4 = p3\<lparr>dvalue := v\<rparr>
      in p4\<lparr>connected := True\<rparr>)"

text \<open>
  What the user does to the widgets: typing a number into the field or dragging the slider
  sets the widget's value, and the widget's signal runs the handler.
\<close>

definition user_edits_field :: "NumParameter \<Rightarrow> pynum \<Rightarrow> NumParameter" where
  "user_edits_field p v = field_setValue p v"

definition user_moves_slider :: "NumParameter \<Rightarrow> int \<Rightarrow> NumParameter" where
  "user_moves_slider p v = slider_setValue p (PInt v)"

section \<open>Colours\<close>

text \<open>
  A \<^verbatim>\<open>QColor\<close> is invalid or holds red, green and blue bytes (the alpha channel is read
  nowhere: \<^verbatim>\<open>name()\<close> and \<^verbatim>\<open>toTuple()[:3]\<close> drop it). \<^verbatim>\<open>name()\<close> is the text \<^verbatim>\<open>#rrggbb\<close> in
  lower-case hexadecimal.
\<close>

datatype qcolor = QInvalid | QRgb "8 word" "8 word" "8 word"

fun isValid :: "qcolor \<Rightarrow> bool" where
  "isValid QInvalid = False"
| "isValid (QRgb _ _ _) = True"

definition hex_digit :: "nat \<Rightarrow> char" where
  "hex_digit n = (if n < 10 then char_of (48 + n) else char_of (87 + n))"

definition hex2 :: "8 word \<Rightarrow> string" where
  "hex2 w = [hex_digit (unat w div 16), hex_digit (unat w mod 16)]"

fun color_name :: "qcolor \<Rightarrow> string" where
  "color_name QInvalid = ''#000000''"
| "color_name (QRgb r g b) = CHR ''#'' # hex2 r @ hex2 g @ hex2 b"

fun toTuple3 :: "qcolor \<Rightarrow> nat \<times> nat \<times> nat" where
  "toTuple3 QInvalid = (0, 0, 0)"
| "toTuple3 (QRgb r g b) = (unat r, unat g, unat b)"

text \<open>
  \<^verbatim>\<open>QColor(text)\<close>. The form \<^verbatim>\<open>#\<close> and six hexadecimal digits is parsed here. Every other
  text (a colour name, a hexadecimal form of another length) is left to \<open>other\<close>, the rest
  of the toolkit's parser, which the functions below take as a parameter.
\<close>

definition digit_value :: "char \<Rightarrow> nat option" where
  "digit_value c =
     (let n = (of_char c :: nat)
      in if 48 \<le> n \<and> n \<le> 57 then Some (n - 48)
         else if 97 \<le> n \<and> n \<le> 102 then Some (n - 87)
         else if 65 \<le> n \<and> n \<le> 70 then Some (n - 55)
         else None)"

definition hex_byte :: "char \<Rightarrow> char \<Rightarrow> 8 word option" where
  "hex_byte h l =
     (case digit_value h of
        None \<Rightarrow> None
      | Some a \<Rightarrow> (case digit_value l of
                    None \<Rightarrow> None
                  | Some b \<Rightarrow> Some (word_of_nat (16 * a + b))))"

definition hex6 :: "char \<Rightarrow> char \<Rightarrow> char \<Rightarrow> char \<Rightarrow> char \<Rightarrow> char \<Rightarrow> qcolor" where
  "hex6 r1 r2 g1 g2 b1 b2 =
     (case hex_byte r1 r2 of
        None \<Rightarrow> QInvalid
      | Some r \<Rightarrow> (case hex_byte g1 g2 of
                    None \<Rightarrow> QInvalid
                  | Some g \<Rightarrow> (case hex_byte b1 b2 of
                                None \<Rightarrow> QInvalid
                              | Some b \<Rightarrow> QRgb r g b)))"

fun QColor_fromString :: "(string \<Rightarrow> qcolor) \<Rightarrow> string \<Rightarrow> qcolor" where
  "QColor_fromString other [c0, r1, r2, g1, g2, b1, b2] =
     (if c0 = CHR ''#'' then hex6 r1 r2 g1 g2 b1 b2
      else other [c0, r1, r2, g1, g2, b1, b2])"
| "QColor_fromString other s = other s"

text \<open>A parser that knows no colour names: it serves the concrete instances below.\<close>

definition no_names :: "string \<Rightarrow> qcolor" where
  "no_names s = QInvalid"

text \<open>What the code passes to \<^verbatim>\<open>QColor(...)\<close>: a text or a colour object.\<close>

datatype cvalue = CStr string | CColor qcolor

fun QColor :: "(string \<Rightarrow> qcolor) \<Rightarrow> cvalue \<Rightarrow> qcolor" where
  "QColor other (CStr s) = QColor_fromString other s"
| "QColor other (CColor c) = c"

section \<open>ColorParameter\<close>

text \<open>
  The state of one \<^verbatim>\<open>ColorParameter\<close>: the text of its line edit, the colour of the button's
  style sheet (none before the first \<^verbatim>\<open>_setButtonColor\<close>), the default value, whether the
  line edit's \<^verbatim>\<open>textChanged\<close> is already connected to \<^verbatim>\<open>self.valueChanged.emit\<close> (the
  constructor connects it last), and the texts carried by the \<^verbatim>\<open>valueChanged\<close> notifications
  delivered so far, oldest first.
\<close>

record ColorParameter =
  field_text :: string
  button_color :: "(nat \<times> nat \<times> nat) option"
  c_dvalue :: cvalue
  c_connected :: bool
  c_emitted :: "string list"

definition ColorParameter_valueChanged_emit :: "ColorParameter \<Rightarrow> string \<Rightarrow> ColorParameter" where
  "ColorParameter_valueChanged_emit p s = p\<lparr>c_emitted := c_emitted p @ [s]\<rparr>"

text \<open>
  \<^verbatim>\<open>self.field.setText(text)\<close>: a line edit whose text changes emits \<^verbatim>\<open>textChanged(text)\<close>;
  nothing blocks it here, so the connected \<^verbatim>\<open>valueChanged.emit\<close> runs.
\<close>

definition field_setText :: "ColorParameter \<Rightarrow> string \<Rightarrow> ColorParameter" where
  "field_setText p s =
     (let p1 = p\<lparr>field_text := s\<rparr>
      in if s \<noteq> field_text p \<and> c_connected p then ColorParameter_valueChanged_emit p1 s else p1)"

definition setButtonColor :: "(string \<Rightarrow> qcolor) \<Rightarrow> ColorParameter \<Rightarrow> cvalue \<Rightarrow> ColorParameter" where
  "setButtonColor other p c = p\<lparr>button_color := Some (toTuple3 (QColor other c))\<rparr>"

definition ColorParameter_setDefaultValue ::
  "(string \<Rightarrow> qcolor) \<Rightarrow> ColorParameter \<Rightarrow> cvalue \<Rightarrow> ColorParameter" where
  "ColorParameter_setDefaultValue other p v =
     (let color = QColor other v
      in if \<not> isValid color then p else p\<lparr>c_dvalue := CStr (color_name color)\<rparr>)"


definition ColorParameter_setValue ::
  "(string \<Rightarrow> qcolor) \<Rightarrow> ColorParameter \<Rightarrow> cvalue \<Rightarrow> bool \<Rightarrow> ColorParameter" where
  "ColorParameter_setValue other p v use_as_default =
     (let color = QColor other v
      in if \<not> isValid color then p
         else
           (let s = color_name color;
                p1 = (if use_as_default then ColorParameter_setDefaultValue other p (CStr s) else p);
                p2 = field_setText p1 s;
                p3 = setButtonColor other p2 (CColor color)
            in ColorParameter_valueChanged_emit p3 s))"


definition ColorParameter_value :: "ColorParameter \<Rightarrow> string" where
  "ColorParameter_value p = field_text p"

text \<open>
  The constructor: the line edit starts empty; \<^verbatim>\<open>_dvalue\<close> is assigned the colour object
  itself after the first \<^verbatim>\<open>setValue\<close>.
\<close>

definition ColorParameter_init :: "(string \<Rightarrow> qcolor) \<Rightarrow> qcolor \<Rightarrow> ColorParameter" where
  "ColorParameter_init other color =
     (let p0 = \<lparr>field_text = [], button_color = None, c_dvalue = CColor color,
                c_connected = False, c_emitted = []\<rparr>;
          p1 = ColorParameter_setValue other p0 (CColor color) False;
          p2 = p1\<lparr>c_dvalue := CColor color\<rparr>
      in p2\<lparr>c_connected := True\<rparr>)"



section \<open>The external generator and the rasterizer\<close>

text \<open>The keyword arguments of one call of \<^verbatim>\<open>wallpaper.generate\<close>, in the order of the call.\<close>

record request =
  width :: pynum
  height :: pynum
  scale :: pynum
  rotate :: pynum
  slop :: pynum
  background :: string
  nodestroke :: string
  nodefill :: string
  wirestyle :: "string option"
  wirestroke :: string
  connfill :: string
  connstroke :: string
  strokewidth :: pynum
  wirewidth :: pynum
  saturation :: pynum
  lightness :: pynum
  seed :: pynum

datatype error = GenerationError | NotValidSvg | AttributeError

text \<open>
  Modelled from the spec: \<^verbatim>\<open>wallpaper.generate\<close> is imported by the source file and is not
  part of it. The spec's generator contract is \<^verbatim>\<open>generate(width, height, <named parameters>)
  -> markupText\<close>, deterministic given identical request contents, and it may signal a
  generation error. So a generator is a function \<open>g\<close> of the request, \<open>None\<close> where it
  raises, and calling it either raises or returns the markup.
\<close>

definition wallpaper_generate :: "(request \<Rightarrow> string option) \<Rightarrow> request \<Rightarrow> error + string" where
  "wallpaper_generate g r = (case g r of None \<Rightarrow> Inl GenerationError | Some m \<Rightarrow> Inr m)"

text \<open>
  A raster image has a size and pixels; the pixel type is left open. The toolkit is a
  parameter: \<open>svg_isValid\<close> is \<^verbatim>\<open>QSvgRenderer(...).isValid()\<close>, \<open>svg_render m w h\<close> the
  pixels that the renderer paints with antialiasing into a \<open>w\<close> by \<open>h\<close> image, \<open>scaled\<close> is
  \<^verbatim>\<open>QPixmap.scaled\<close>, \<open>other_colors\<close> the rest of the colour parser.
\<close>

record 'px qimage =
  img_width :: int
  img_height :: int
  img_pixels :: 'px

datatype AspectRatioMode = IgnoreAspectRatio | KeepAspectRatio | KeepAspectRatioByExpanding

datatype TransformationMode = FastTransformation | SmoothTransformation

record 'px toolkit =
  generator :: "request \<Rightarrow> string option"
  svg_isValid :: "string \<Rightarrow> bool"
  svg_render :: "string \<Rightarrow> int \<Rightarrow> int \<Rightarrow> 'px"
  scaled :: "'px qimage \<Rightarrow> int \<Rightarrow> int \<Rightarrow> AspectRatioMode \<Rightarrow> TransformationMode \<Rightarrow> 'px qimage"
  other_colors :: "string \<Rightarrow> qcolor"

section \<open>ImageView\<close>

text \<open>
  The label's size is set by the layout; \<^verbatim>\<open>setImage\<close> shows the image scaled to that size.
  \<^verbatim>\<open>QPixmap(None)\<close> is taken as the null pixmap, which stays null when scaled.
\<close>

record 'px ImageView =
  view_width :: int
  view_height :: int
  pixmap :: "'px qimage option"

definition setImage :: "'px toolkit \<Rightarrow> 'px ImageView \<Rightarrow> 'px qimage option \<Rightarrow> 'px ImageView" where
  "setImage T v img_arg =
     v\<lparr>pixmap := (case img_arg of
                    None \<Rightarrow> None
                  | Some img \<Rightarrow> Some (scaled T img (view_width v) (view_height v)
                                      KeepAspectRatio SmoothTransformation))\<rparr>"

section \<open>MainWindow\<close>

text \<open>
  The parameter widgets of the window (attributes of \<^verbatim>\<open>MainWindow\<close> in the source, grouped
  here), with the combo box as its current index.
\<close>

record ParameterSet =
  width_field :: NumParameter
  height_field :: NumParameter
  scale_field :: NumParameter
  rotation_field :: NumParameter
  slop_field :: NumParameter
  background_color_field :: ColorParameter
  node_fill_color_field :: ColorParameter
  node_stroke_color_field :: ColorParameter
  wire_style_combo :: int
  wire_stroke_color_field :: ColorParameter
  connector_fill_color_field :: ColorParameter
  connector_stroke_color_field :: ColorParameter
  stroke_width_field :: NumParameter
  wire_width_field :: NumParameter
  saturation_field :: NumParameter
  lightness_field :: NumParameter
  seed_field :: NumParameter

text \<open>\<^verbatim>\<open>currentData(Qt.UserRole)\<close> of the combo box filled with Bezier and Straight.\<close>

definition currentData :: "int \<Rightarrow> string option" where
  "currentData i = (if i = 0 then Some ''bezier'' else if i = 1 then Some ''straight'' else None)"

text \<open>
  The window: its parameters, \<^verbatim>\<open>__svg_data\<close>, \<^verbatim>\<open>__image\<close> (as \<open>image_attr\<close>), the view, and the requests that
  have been passed to the external generator so far, oldest first (a record kept by the
  model, to count the calls).
\<close>

record 'px MainWindow =
  parms :: ParameterSet
  svg_data :: "string option"
  image_attr :: "'px qimage option"
  view :: "'px ImageView"
  generate_calls :: "request list"

definition toRequest :: "ParameterSet \<Rightarrow> request" where
  "toRequest ps =
     \<lparr>width = NumParameter_value (width_field ps),
      height = NumParameter_value (height_field ps),
      scale = NumParameter_value (scale_field ps),
      rotate = NumParameter_value (rotation_field ps),
      slop = NumParameter_value (slop_field ps),
      background = ColorParameter_value (background_color_field ps),
      nodestroke = ColorParameter_value (node_stroke_color_field ps),
      nodefill = ColorParameter_value (node_fill_color_field ps),
      wirestyle = currentData (wire_style_combo ps),
      wirestroke = ColorParameter_value (wire_stroke_color_field ps),
      connfill = ColorParameter_value (connector_fill_color_field ps),
      connstroke = ColorParameter_value (connector_stroke_color_field ps),
      strokewidth = NumParameter_value (stroke_width_field ps),
      wirewidth = NumParameter_value (wire_width_field ps),
      saturation = NumParameter_value (saturation_field ps),
      lightness = NumParameter_value (lightness_field ps),
      seed = NumParameter_value (seed_field ps)\<rparr>"

text \<open>
  \<^verbatim>\<open>generateImage\<close> returns the new image or raises; either way the window's attributes are
  as the statements executed so far left them.
\<close>

definition generateImage :: "'px toolkit \<Rightarrow> 'px MainWindow \<Rightarrow> (error + 'px qimage) \<times> 'px MainWindow" where
  "generateImage T w =
     (let req = toRequest (parms w);
          w1 = w\<lparr>generate_calls := generate_calls w @ [req]\<rparr>
      in case wallpaper_generate (generator T) req of
           Inl e \<Rightarrow> (Inl e, w1)
         | Inr m \<Rightarrow>
             (let w2 = w1\<lparr>svg_data := Some m\<rparr>
              in if \<not> svg_isValid T m then (Inl NotValidSvg, w2\<lparr>svg_data := None\<rparr>)
                 else
                   (let iw = to_cint (width req); ih = to_cint (height req);
                        img = \<lparr>img_width = iw, img_height = ih,
                               img_pixels = svg_render T m iw ih\<rparr>
                    in (Inr img, w2\<lparr>image_attr := Some img\<rparr>))))"

definition updateImage :: "'px toolkit \<Rightarrow> 'px MainWindow \<Rightarrow> (error + unit) \<times> 'px MainWindow" where
  "updateImage T w =
     (case generateImage T w of
        (Inl e, w1) \<Rightarrow> (Inl e, w1)
      | (Inr img, w1) \<Rightarrow> (Inr (), w1\<lparr>view := setImage T (view w1) (Some img)\<rparr>))"

definition resizeEvent :: "'px toolkit \<Rightarrow> 'px MainWindow \<Rightarrow> 'px MainWindow" where
  "resizeEvent T w = w\<lparr>view := setImage T (view w) (image_attr w)\<rparr>"

text \<open>A resize of the window: the layout gives the view its new size, then \<^verbatim>\<open>resizeEvent\<close> runs.\<close>

definition window_resized :: "'px toolkit \<Rightarrow> 'px MainWindow \<Rightarrow> int \<times> int \<Rightarrow> 'px MainWindow" where
  "window_resized T w sz =
     resizeEvent T (w\<lparr>view := (view w)\<lparr>view_width := fst sz, view_height := snd sz\<rparr>\<rparr>)"




text \<open>
  The constructor builds the parameters, clears the cache and calls \<^verbatim>\<open>updateImage\<close>; when that
  raises there is no window. The view's first size comes from the layout.
\<close>

definition initial_parms :: "(string \<Rightarrow> qcolor) \<Rightarrow> ParameterSet" where
  "initial_parms other =
     \<lparr>width_field = NumParameter_init (PInt 1920) (Some (PInt 1, PInt 4096)) (Some (PInt 128)),
      height_field = NumParameter_init (PInt 1080) (Some (PInt 1, PInt 4096)) (Some (PInt 128)),
      scale_field = NumParameter_init (PFloat (8 / 10)) (Some (PFloat (1 / 10), PInt 10))
                      (Some (PFloat (1 / 10))),
      rotation_field = NumParameter_init (PFloat (- 7)) (Some (PInt (- 360), PInt 360)) None,
      slop_field = NumParameter_init (PInt 5) (Some (PInt 0, PInt 50)) (Some (PInt 1)),
      background_color_field = ColorParameter_init other (QColor other (CStr ''#ffffff'')),
      node_fill_color_field = ColorParameter_init other (QColor other (CStr ''#cccccc'')),
      node_stroke_color_field = ColorParameter_init other (QColor other (CStr ''#cccccc'')),
      wire_style_combo = 0,
      wire_stroke_color_field = ColorParameter_init other (QColor other (CStr ''#cccccc'')),
      connector_fill_color_field = ColorParameter_init other (QColor other (CStr ''#ffffff'')),
      connector_stroke_color_field = ColorParameter_init other (QColor other (CStr ''#cccccc'')),
      stroke_width_field = NumParameter_init (PFloat 2) (Some (PInt 0, PInt 10))
                             (Some (PFloat (1 / 10))),
      wire_width_field = NumParameter_init (PFloat 2) (Some (PInt 0, PInt 10))
                           (Some (PFloat (1 / 10))),
      saturation_field = NumParameter_init (PFloat 1) (Some (PInt 0, PInt 1))
                           (Some (PFloat (5 / 100))),
      lightness_field = NumParameter_init (PFloat (5 / 10)) (Some (PInt 0, PInt 1))
                          (Some (PFloat (5 / 100))),
      seed_field = NumParameter_init (PInt 42) (Some (PInt 0, PInt 9999)) (Some (PInt 1))\<rparr>"


section \<open>Sequences of operations\<close>

text \<open>
  Everything that can happen to a \<^verbatim>\<open>NumParameter\<close> after its construction: a call of one of
  its methods, or the user editing the field or moving the slider.
\<close>

datatype num_op =
    SetValue pynum bool
  | SetRange pynum pynum
  | SetSingleStep pynum
  | SetDefaultValue pynum
  | ResetToDefault
  | UserEditsField pynum
  | UserMovesSlider int

fun num_apply :: "NumParameter \<Rightarrow> num_op \<Rightarrow> NumParameter" where
  "num_apply p (SetValue v use_as_default) = NumParameter_setValue p v use_as_default"
| "num_apply p (SetRange lo hi) = NumParameter_setRange p lo hi"
| "num_apply p (SetSingleStep v) = NumParameter_setSingleStep p v"
| "num_apply p (SetDefaultValue v) = NumParameter_setDefaultValue p v"
| "num_apply p ResetToDefault = NumParameter_resetToDefault p"
| "num_apply p (UserEditsField v) = user_edits_field p v"
| "num_apply p (UserMovesSlider v) = user_moves_slider p v"

text \<open>Comparing Python numbers, and the range the parameter currently has.\<close>

definition py_le :: "pynum \<Rightarrow> pynum \<Rightarrow> bool" where
  "py_le a b = (to_double a \<le> to_double b)"

definition NumParameter_minimum :: "NumParameter \<Rightarrow> pynum" where
  "NumParameter_minimum p = fld_minimum (field p)"

definition NumParameter_maximum :: "NumParameter \<Rightarrow> pynum" where
  "NumParameter_maximum p = fld_maximum (field p)"

text \<open>A rational with at most two decimals.\<close>

definition is2dp :: "rat \<Rightarrow> bool" where
  "is2dp q = (of_int \<lfloor>q * 100\<rfloor> = q * 100)"

text \<open>
  The field matches the parameter's type tag, and its value lies in its range; a
  \<^verbatim>\<open>QDoubleSpinBox\<close> holds two-decimal numbers only.
\<close>

fun field_ok :: "pytype \<Rightarrow> field \<Rightarrow> bool" where
  "field_ok TInt (QSpinBox b) = (sb_minimum b \<le> sb_value b \<and> sb_value b \<le> sb_maximum b)"
| "field_ok TFloat (QDoubleSpinBox b) =
     (sb_minimum b \<le> sb_value b \<and> sb_value b \<le> sb_maximum b \<and>
      is2dp (sb_minimum b) \<and> is2dp (sb_maximum b) \<and> is2dp (sb_value b))"
| "field_ok TInt (QDoubleSpinBox b) = False"
| "field_ok TFloat (QSpinBox b) = False"

definition num_inv :: "NumParameter \<Rightarrow> bool" where
  "num_inv p = (field_ok (p_type p) (field p) \<and>
                \<not> field_blocked p \<and> \<not> slider_blocked p \<and> \<not> self_blocked p)"

text \<open>What the number \<open>v\<close> becomes inside the field of \<open>p\<close>, before the range bounds it.\<close>

definition field_repr :: "NumParameter \<Rightarrow> pynum \<Rightarrow> pynum" where
  "field_repr p v = (if p_type p = TInt then PInt (to_cint v) else PFloat (round2 (to_double v)))"





text \<open>Two parameters as the window builds them.\<close>

definition height_1080 :: NumParameter where
  "height_1080 = NumParameter_init (PInt 1080) (Some (PInt 1, PInt 4096)) (Some (PInt 128))"

definition scale_08 :: NumParameter where
  "scale_08 = NumParameter_init (PFloat (8 / 10)) (Some (PFloat (1 / 10), PInt 10))
                (Some (PFloat (1 / 10)))"

definition white_parameter :: ColorParameter where
  "white_parameter = ColorParameter_init no_names (QColor no_names (CStr ''#ffffff''))"

text \<open>
  \<^verbatim>\<open>value()\<close> returns a number of the parameter's kind: an integer for an integer parameter,
  a number with two decimals for a fractional one.
\<close>

definition value_of_kind :: "NumParameter \<Rightarrow> bool" where
  "value_of_kind p =
     (case NumParameter_value p of
        PInt i \<Rightarrow> p_type p = TInt
      | PFloat q \<Rightarrow> p_type p = TFloat \<and> is2dp q)"

section \<open>Events of the window\<close>

text \<open>
  The image painted for a request from its markup, as \<^verbatim>\<open>generateImage\<close> builds it.
\<close>

definition render_image :: "'px toolkit \<Rightarrow> string \<Rightarrow> request \<Rightarrow> 'px qimage" where
  "render_image T m req =
     \<lparr>img_width = to_cint (width req), img_height = to_cint (height req),
      img_pixels = svg_render T m (to_cint (width req)) (to_cint (height req))\<rparr>"





text \<open>
  A toolkit for concrete instances: the generator's markup is accepted for seed 42 only,
  pixels are recorded as what was rendered and at which size.
\<close>

definition sample_toolkit :: "(string \<times> int \<times> int) toolkit" where
  "sample_toolkit =
     \<lparr>generator = (\<lambda>r. if seed r = PInt 42 then Some ''<svg/>'' else Some ''<broken''),
      svg_isValid = (\<lambda>m. m = ''<svg/>''),
      svg_render = (\<lambda>m w h. (m, w, h)),
      scaled = (\<lambda>img w h a t. img\<lparr>img_width := w, img_height := h\<rparr>),
      other_colors = no_names\<rparr>"

definition window_before_update :: "(string \<times> int \<times> int) MainWindow" where
  "window_before_update =
     \<lparr>parms = initial_parms no_names, svg_data = None, image_attr = None,
      view = \<lparr>view_width = 400, view_height = 300, pixmap = None\<rparr>,
      generate_calls = []\<rparr>"

definition sample_window :: "(string \<times> int \<times> int) MainWindow" where
  "sample_window = snd (updateImage sample_toolkit window_before_update)"

definition seed_43 :: ParameterSet where
  "seed_43 = (initial_parms no_names)
               \<lparr>seed_field := NumParameter_setValue (seed_field (initial_parms no_names))
                                 (PInt 43) False\<rparr>"

definition sample_window_seed_43 :: "(string \<times> int \<times> int) MainWindow" where
  "sample_window_seed_43 = sample_window\<lparr>parms := seed_43\<rparr>"

section \<open>Rounding and truncation\<close>

lemma is2dp_of_int_div: "is2dp (of_int n / 100)"
  by (simp add: is2dp_def)

lemma is2dp_round2: "is2dp (round2 q)"
  by (simp add: round2_def is2dp_def)

lemma round2_idem: "is2dp q \<Longrightarrow> round2 q = q"
proof -
  assume h: "is2dp q"
  then obtain n :: int where n: "q * 100 = of_int n" unfolding is2dp_def by metis
  then have q: "q = of_int n / 100" by simp
  show ?thesis
  proof (cases "q < 0")
    case True
    have "- q * 100 = of_int (- n)" using n by simp
    then have "round (- q * 100) = - n" by (metis round_of_int)
    then show ?thesis using True q by (simp add: round2_def)
  next
    case False
    have "round (q * 100) = n" using n by simp
    then show ?thesis using False q by (simp add: round2_def)
  qed
qed

lemma round2_mono: "a \<le> b \<Longrightarrow> round2 a \<le> round2 b"
proof -
  assume ab: "a \<le> b"
  have nonneg: "\<And>x::rat. 0 \<le> x \<Longrightarrow> 0 \<le> round x"
    using round_mono[of 0] by simp
  show ?thesis
  proof (cases "b < 0")
    case True
    then have a: "a < 0" using ab by simp
    have "round (- b * 100) \<le> round (- a * 100)" using ab by (intro round_mono) simp
    then show ?thesis using True a by (simp add: round2_def divide_right_mono)
  next
    case b: False
    show ?thesis
    proof (cases "a < 0")
      case True
      have "0 \<le> round (- a * 100)" using True by (intro nonneg) simp
      moreover have "0 \<le> round (b * 100)" using b by (intro nonneg) simp
      ultimately have "- (of_int (round (- a * 100)) / 100) \<le> (0::rat)" "(0::rat) \<le> of_int (round (b * 100)) / 100"
        by simp_all
      then show ?thesis using True b by (simp add: round2_def)
    next
      case False
      have "round (a * 100) \<le> round (b * 100)" using ab by (intro round_mono) simp
      then show ?thesis using False b by (simp add: round2_def divide_right_mono)
    qed
  qed
qed

lemma round2_error: "\<bar>round2 q - q\<bar> \<le> 1 / 200"
proof (cases "q < 0")
  case True
  define x where "x = of_int (round (- q * 100)) - (- q * 100)"
  have x: "\<bar>x\<bar> \<le> 1 / 2" unfolding x_def by (rule of_int_round_abs_le)
  have e: "round2 q - q = - (x / 100)" using True by (simp add: round2_def x_def field_simps)
  show ?thesis unfolding e using x by simp
next
  case False
  define x where "x = of_int (round (q * 100)) - q * 100"
  have x: "\<bar>x\<bar> \<le> 1 / 2" unfolding x_def by (rule of_int_round_abs_le)
  have e: "round2 q - q = x / 100" using False by (simp add: round2_def x_def field_simps)
  show ?thesis unfolding e using x by simp
qed

lemma trunc_of_int: "trunc (of_int n) = n"
  by (simp add: trunc_def)


lemma trunc_mono: "a \<le> b \<Longrightarrow> trunc a \<le> trunc b"
proof -
  assume ab: "a \<le> b"
  have f: "\<lfloor>a\<rfloor> \<le> \<lfloor>b\<rfloor>" using ab by (rule floor_mono)
  have c: "\<lceil>a\<rceil> \<le> \<lceil>b\<rceil>" using ab by (rule ceiling_mono)
  have fc: "\<lfloor>a\<rfloor> \<le> \<lceil>a\<rceil>" "\<lfloor>b\<rfloor> \<le> \<lceil>b\<rceil>" by (simp_all add: floor_le_ceiling)
  have neg: "\<And>x::rat. - \<lfloor>- x\<rfloor> = \<lceil>x\<rceil>" by (simp add: ceiling_def)
  have "a < 0 \<Longrightarrow> \<not> b < 0 \<Longrightarrow> \<lceil>a\<rceil> \<le> \<lfloor>b\<rfloor>"
  proof -
    assume "a < 0" "\<not> b < 0"
    then have "\<lceil>a\<rceil> \<le> 0" "0 \<le> \<lfloor>b\<rfloor>" by (simp_all add: ceiling_le_zero)
    then show ?thesis by (rule order_trans)
  qed
  then show ?thesis using f c fc ab unfolding trunc_def neg by auto
qed

section \<open>The invariant of a NumParameter\<close>

lemma sb_bound_in: "sb_minimum b \<le> sb_maximum b \<Longrightarrow> sb_minimum b \<le> sb_bound b v \<and> sb_bound b v \<le> sb_maximum b"
  by (auto simp: sb_bound_def)

lemma sb_bound_cases: "sb_bound b v = sb_minimum b \<or> sb_bound b v = sb_maximum b \<or> sb_bound b v = v"
  by (auto simp: sb_bound_def)

lemma sb_bound_id: "sb_minimum b \<le> v \<Longrightarrow> v \<le> sb_maximum b \<Longrightarrow> sb_bound b v = v"
  by (auto simp: sb_bound_def)

lemma field_ok_setValue: "field_ok t f \<Longrightarrow> field_ok t (fld_setValue f v)"
proof (induction t f rule: field_ok.induct)
  case (1 b)
  then show ?case using sb_bound_in[of b "to_cint v"] by (simp add: sb_setValue_def)
next
  case (2 b)
  then show ?case
    using sb_bound_in[of b "round2 (to_double v)"] sb_bound_cases[of b "round2 (to_double v)"]
    by (auto simp: sb_setValue_def is2dp_round2)
qed simp_all

lemma field_ok_setRange: "field_ok t f \<Longrightarrow> field_ok t (fld_setRange f lo hi)"
proof (induction t f rule: field_ok.induct)
  case (1 b)
  then show ?case by (auto simp: sb_setRange_def sb_bound_def Let_def)
next
  case (2 b)
  then show ?case by (auto simp: sb_setRange_def sb_bound_def Let_def is2dp_round2)
qed simp_all

lemma field_ok_setSingleStep: "field_ok t f \<Longrightarrow> field_ok t (fld_setSingleStep f s)"
  by (induction t f rule: field_ok.induct) (auto simp: sb_setSingleStep_def)

lemma inv_setValue: "num_inv p \<Longrightarrow> num_inv (NumParameter_setValue p v u)"
  by (auto simp: num_inv_def NumParameter_setValue_def Let_def field_setValue_def slider_setValue_def
      field_notify_def slider_notify_def NumParameter_valueChanged_emit_def NumParameter_setDefaultValue_def
      field_ok_setValue)


lemmas num_prims = field_setValue_def slider_setValue_def field_setRange_def slider_setRange_def
  field_notify_def slider_notify_def NumParameter_valueChanged_emit_def
  NumParameter_updateValueFromField_def NumParameter_updateValueFromSlider_def
  NumParameter_setDefaultValue_def

lemma inv_setRange: "num_inv p \<Longrightarrow> num_inv (NumParameter_setRange p lo hi)"
  by (auto simp: num_inv_def NumParameter_setRange_def Let_def num_prims
      field_ok_setValue field_ok_setRange)

lemma inv_setSingleStep: "num_inv p \<Longrightarrow> num_inv (NumParameter_setSingleStep p v)"
  by (auto simp: num_inv_def NumParameter_setSingleStep_def Let_def field_ok_setSingleStep)

lemma inv_setDefaultValue: "num_inv p \<Longrightarrow> num_inv (NumParameter_setDefaultValue p v)"
  by (simp add: num_inv_def NumParameter_setDefaultValue_def)

lemma inv_resetToDefault: "num_inv p \<Longrightarrow> num_inv (NumParameter_resetToDefault p)"
  by (simp add: NumParameter_resetToDefault_def inv_setValue)

lemma inv_user_edits_field: "num_inv p \<Longrightarrow> num_inv (user_edits_field p v)"
  by (auto simp: num_inv_def user_edits_field_def Let_def num_prims field_ok_setValue)

lemma inv_user_moves_slider: "num_inv p \<Longrightarrow> num_inv (user_moves_slider p v)"
  by (auto simp: num_inv_def user_moves_slider_def Let_def num_prims field_ok_setValue)

lemma inv_apply: "num_inv p \<Longrightarrow> num_inv (num_apply p op)"
  by (cases op) (simp_all add: inv_setValue inv_setRange inv_setSingleStep inv_setDefaultValue
      inv_resetToDefault inv_user_edits_field inv_user_moves_slider)

lemma inv_foldl: "num_inv p \<Longrightarrow> num_inv (foldl num_apply p ops)"
  by (induction ops arbitrary: p) (simp_all add: inv_apply)

lemma inv_connected: "num_inv p \<Longrightarrow> num_inv (p\<lparr>connected := c\<rparr>)"
  by (simp add: num_inv_def)

lemma inv_dvalue: "num_inv p \<Longrightarrow> num_inv (p\<lparr>dvalue := c\<rparr>)"
  by (simp add: num_inv_def)

lemma inv_new: "num_inv \<lparr>p_type = py_type v,
                field = (if py_type v = TInt then new_QSpinBox else new_QDoubleSpinBox),
                slider = new_QSlider, dvalue = v,
                field_blocked = False, slider_blocked = False, self_blocked = False,
                connected = False, emitted = 0\<rparr>"
  by (cases v) (simp_all add: num_inv_def new_QSpinBox_def new_QDoubleSpinBox_def is2dp_def)

lemma inv_init: "num_inv (NumParameter_init v r s)"
proof -
  define p0 where "p0 = \<lparr>p_type = py_type v,
                field = (if py_type v = TInt then new_QSpinBox else new_QDoubleSpinBox),
                slider = new_QSlider, dvalue = v,
                field_blocked = False, slider_blocked = False, self_blocked = False,
                connected = False, emitted = 0\<rparr>"
  have 0: "num_inv p0" unfolding p0_def by (rule inv_new)
  show ?thesis
    unfolding NumParameter_init_def Let_def p0_def[symmetric]
    by (intro inv_connected inv_dvalue inv_setValue)
       (auto split: option.split simp: inv_setRange inv_setSingleStep 0)
qed

lemma inv_reach: "num_inv (foldl num_apply (NumParameter_init v r s) ops)"
  by (rule inv_foldl) (rule inv_init)

lemma value_in_range:
  "num_inv p \<Longrightarrow> py_le (NumParameter_minimum p) (NumParameter_value p) \<and>
                  py_le (NumParameter_value p) (NumParameter_maximum p)"
  unfolding num_inv_def
  by (cases "p_type p"; cases "field p")
     (simp_all add: py_le_def NumParameter_minimum_def NumParameter_maximum_def NumParameter_value_def)

text \<open>
  C9. After construction and after every further operation (\<^verbatim>\<open>setValue\<close>, \<^verbatim>\<open>setRange\<close>,
  \<^verbatim>\<open>setSingleStep\<close>, \<^verbatim>\<open>setDefaultValue\<close>, \<^verbatim>\<open>resetToDefault\<close>, field and slider edits),
  \<^verbatim>\<open>value()\<close> lies between the minimum and the maximum of the parameter's current range,
  which is the range its field holds.
\<close>

theorem NumParameter_value_within_range:
  "py_le (NumParameter_minimum (foldl num_apply (NumParameter_init v r s) ops))
         (NumParameter_value (foldl num_apply (NumParameter_init v r s) ops)) \<and>
   py_le (NumParameter_value (foldl num_apply (NumParameter_init v r s) ops))
         (NumParameter_maximum (foldl num_apply (NumParameter_init v r s) ops))"
  by (rule value_in_range) (rule inv_reach)

section \<open>What setValue does to a NumParameter\<close>

lemma setValue_field: "field (NumParameter_setValue p v u) = fld_setValue (field p) v"
  by (simp add: NumParameter_setValue_def Let_def num_prims)

lemma setValue_p_type: "p_type (NumParameter_setValue p v u) = p_type p"
  by (simp add: NumParameter_setValue_def Let_def num_prims)



lemma value_setValue:
  "NumParameter_value (NumParameter_setValue p v u) =
     (if p_type p = TInt then PInt (to_cint (fld_value (fld_setValue (field p) v)))
      else fld_value (fld_setValue (field p) v))"
  by (simp add: NumParameter_value_def setValue_field setValue_p_type)

lemma value_setValue_inside:
  assumes "num_inv p" and "py_le (NumParameter_minimum p) v" and "py_le v (NumParameter_maximum p)"
  shows "NumParameter_value (NumParameter_setValue p v u) = field_repr p v"
proof (cases "p_type p")
  case TInt
  then obtain b where b: "field p = QSpinBox b" using assms(1)
    by (cases "field p") (simp_all add: num_inv_def)
  have "of_int (sb_minimum b) \<le> to_double v" "to_double v \<le> of_int (sb_maximum b)"
    using assms(2,3) b by (simp_all add: py_le_def NumParameter_minimum_def NumParameter_maximum_def)
  then have "trunc (of_int (sb_minimum b)) \<le> trunc (to_double v)" "trunc (to_double v) \<le> trunc (of_int (sb_maximum b))"
    by (simp_all only: trunc_mono)
  moreover have "to_cint v = trunc (to_double v)" by (cases v) (simp_all add: trunc_of_int)
  ultimately have "sb_bound b (to_cint v) = to_cint v"
    by (simp add: trunc_of_int sb_bound_id)
  then show ?thesis using TInt b by (simp add: value_setValue field_repr_def sb_setValue_def)
next
  case TFloat
  then obtain b where b: "field p = QDoubleSpinBox b" using assms(1)
    by (cases "field p") (simp_all add: num_inv_def)
  have ok: "is2dp (sb_minimum b)" "is2dp (sb_maximum b)" using assms(1) TFloat b by (simp_all add: num_inv_def)
  have "sb_minimum b \<le> to_double v" "to_double v \<le> sb_maximum b"
    using assms(2,3) b by (simp_all add: py_le_def NumParameter_minimum_def NumParameter_maximum_def)
  then have "round2 (sb_minimum b) \<le> round2 (to_double v)" "round2 (to_double v) \<le> round2 (sb_maximum b)"
    by (simp_all only: round2_mono)
  then have "sb_bound b (round2 (to_double v)) = round2 (to_double v)"
    using ok by (simp add: round2_idem sb_bound_id)
  then show ?thesis using TFloat b by (simp add: value_setValue field_repr_def sb_setValue_def)
qed



lemma value_of_kind_inv: "num_inv p \<Longrightarrow> value_of_kind p"
  unfolding num_inv_def value_of_kind_def NumParameter_value_def
  by (cases "p_type p"; cases "field p") simp_all

text \<open>
  C6. For a parameter in any state it can reach, and a valid input \<open>v\<close> inside its current
  range (an integer for an integer parameter), \<^verbatim>\<open>setValue(v)\<close> followed by \<^verbatim>\<open>value()\<close> returns
  \<open>v\<close> itself for the integer kind, and \<open>v\<close> rounded to two decimals, at most 0.005 away
  from \<open>v\<close>, for the fractional kind. \<^verbatim>\<open>value()\<close> always returns an integer for the integer
  kind and a two-decimal number for the fractional kind.
\<close>

theorem setValue_then_value:
  assumes "p = foldl num_apply (NumParameter_init v0 r s) ops"
    and "py_le (NumParameter_minimum p) v" and "py_le v (NumParameter_maximum p)"
    and "p_type p = TInt \<Longrightarrow> py_type v = TInt"
  shows "(p_type p = TInt \<longrightarrow> NumParameter_value (NumParameter_setValue p v u) = v) \<and>
         (p_type p = TFloat \<longrightarrow>
            NumParameter_value (NumParameter_setValue p v u) = PFloat (round2 (to_double v)) \<and>
            \<bar>round2 (to_double v) - to_double v\<bar> \<le> 1 / 200) \<and>
         value_of_kind p \<and> value_of_kind (NumParameter_setValue p v u)"
proof -
  have inv: "num_inv p" unfolding assms(1) by (rule inv_reach)
  have val: "NumParameter_value (NumParameter_setValue p v u) = field_repr p v"
    using inv assms(2,3) by (rule value_setValue_inside)
  have int: "p_type p = TInt \<Longrightarrow> field_repr p v = v"
    using assms(4) by (cases v) (simp_all add: field_repr_def)
  have flt: "p_type p = TFloat \<Longrightarrow> field_repr p v = PFloat (round2 (to_double v))"
    by (simp add: field_repr_def)
  have k1: "value_of_kind p" using inv by (rule value_of_kind_inv)
  have k2: "value_of_kind (NumParameter_setValue p v u)"
    using inv by (intro value_of_kind_inv inv_setValue)
  show ?thesis using val int flt k1 k2 round2_error[of "to_double v"] by simp
qed

theorem setValue_then_value_witness:
  "scale_08 = foldl num_apply (NumParameter_init (PFloat (8 / 10)) (Some (PFloat (1 / 10), PInt 10)) (Some (PFloat (1 / 10)))) [] \<and>
   py_le (NumParameter_minimum scale_08) (PFloat (123 / 1000)) \<and>
   py_le (PFloat (123 / 1000)) (NumParameter_maximum scale_08) \<and>
   p_type scale_08 = TFloat \<and>
   NumParameter_value (NumParameter_setValue scale_08 (PFloat (123 / 1000)) False) = PFloat (12 / 100)"
proof -
  have h1: "scale_08 = foldl num_apply (NumParameter_init (PFloat (8 / 10)) (Some (PFloat (1 / 10), PInt 10)) (Some (PFloat (1 / 10)))) []"
    by (simp add: scale_08_def)
  have h2: "py_le (NumParameter_minimum scale_08) (PFloat (123 / 1000))" by code_simp
  have h3: "py_le (PFloat (123 / 1000)) (NumParameter_maximum scale_08)" by code_simp
  have h4: "p_type scale_08 = TFloat" by code_simp
  have r: "round2 (123 / 1000) = 12 / 100" by code_simp
  show ?thesis
    using h1 h2 h3 h4 setValue_then_value[OF h1 h2 h3, of False] r by simp
qed


section \<open>What setRange does to a NumParameter\<close>









section \<open>Colours and defaults\<close>


















text \<open>
  C1. One \<^verbatim>\<open>setValue\<close> is to send one notification. The colour parameter built for white
  has sent its construction-time notification only; \<^verbatim>\<open>setValue('#000000')\<close> then sends two
  notifications: the line edit's \<^verbatim>\<open>textChanged\<close> is connected to \<^verbatim>\<open>valueChanged.emit\<close> and is
  not blocked while \<^verbatim>\<open>setValue\<close> writes the text, and \<^verbatim>\<open>setValue\<close> emits once more itself. The
  numeric parameter, which blocks its widgets, sends one.
\<close>

theorem ColorParameter_setValue_emits_twice:
  "c_emitted white_parameter = [''#ffffff''] \<and>
   c_emitted (ColorParameter_setValue no_names white_parameter (CStr ''#000000'') False) =
     c_emitted white_parameter @ [''#000000'', ''#000000''] \<and>
   emitted (NumParameter_setValue height_1080 (PInt 720) False) = emitted height_1080 + 1"
  by code_simp




section \<open>The preview pipeline\<close>

lemma generateImage_invalid:
  assumes "generator T (toRequest (parms w)) = Some m" and "\<not> svg_isValid T m"
  shows "generateImage T w =
           (Inl NotValidSvg,
            w\<lparr>generate_calls := generate_calls w @ [toRequest (parms w)], svg_data := None\<rparr>)"
  using assms by (simp add: generateImage_def wallpaper_generate_def Let_def)

lemma generateImage_valid:
  assumes "generator T (toRequest (parms w)) = Some m" and "svg_isValid T m"
  shows "generateImage T w =
           (Inr (render_image T m (toRequest (parms w))),
            w\<lparr>generate_calls := generate_calls w @ [toRequest (parms w)], svg_data := Some m,
              image_attr := Some (render_image T m (toRequest (parms w)))\<rparr>)"
  using assms by (simp add: generateImage_def wallpaper_generate_def Let_def render_image_def)

lemma generateImage_raises:
  assumes "generator T (toRequest (parms w)) = None"
  shows "generateImage T w =
           (Inl GenerationError, w\<lparr>generate_calls := generate_calls w @ [toRequest (parms w)]\<rparr>)"
  using assms by (simp add: generateImage_def wallpaper_generate_def Let_def)

lemma generateImage_parms: "parms (snd (generateImage T w)) = parms w"
  by (simp add: generateImage_def wallpaper_generate_def Let_def split: option.split)

lemma generateImage_calls:
  "generate_calls (snd (generateImage T w)) = generate_calls w @ [toRequest (parms w)]"
  by (simp add: generateImage_def wallpaper_generate_def Let_def split: option.split)

lemma updateImage_invalid:
  assumes "generator T (toRequest (parms w)) = Some m" and "\<not> svg_isValid T m"
  shows "updateImage T w =
           (Inl NotValidSvg,
            w\<lparr>generate_calls := generate_calls w @ [toRequest (parms w)], svg_data := None\<rparr>)"
  using generateImage_invalid[OF assms] by (simp add: updateImage_def)

text \<open>
  C2, as amended. When the generator's markup fails the rasterizer's validity check,
  \<^verbatim>\<open>generateImage\<close> raises, and so does \<^verbatim>\<open>updateImage\<close>: the failure reaches the caller. The
  markup of the cache becomes absent. The raster image of the cache and the picture in the
  view are left as they were.
\<close>

theorem invalid_markup_clears_markup_only:
  assumes "generator T (toRequest (parms w)) = Some m" and "\<not> svg_isValid T m"
  shows "fst (generateImage T w) = Inl NotValidSvg \<and>
         svg_data (snd (generateImage T w)) = None \<and>
         image_attr (snd (generateImage T w)) = image_attr w \<and>
         fst (updateImage T w) = Inl NotValidSvg \<and>
         svg_data (snd (updateImage T w)) = None \<and>
         image_attr (snd (updateImage T w)) = image_attr w \<and>
         view (snd (updateImage T w)) = view w"
  using generateImage_invalid[OF assms] updateImage_invalid[OF assms] by simp

text \<open>
  C10. Two generations in a row, with nothing changed in between, pass the same request
  to the generator twice, end in the same way (the same image, or the same error), and
  leave the same markup in the cache; the same holds when they are triggered through
  \<^verbatim>\<open>updateImage\<close>.
\<close>

theorem generate_twice_same_markup:
  "generate_calls (snd (generateImage T (snd (generateImage T w)))) =
     generate_calls w @ [toRequest (parms w), toRequest (parms w)] \<and>
   fst (generateImage T (snd (generateImage T w))) = fst (generateImage T w) \<and>
   svg_data (snd (generateImage T (snd (generateImage T w)))) = svg_data (snd (generateImage T w)) \<and>
   fst (updateImage T (snd (updateImage T w))) = fst (updateImage T w) \<and>
   svg_data (snd (updateImage T (snd (updateImage T w)))) = svg_data (snd (updateImage T w))"
proof (cases "generator T (toRequest (parms w))")
  case None
  then show ?thesis by (simp add: generateImage_raises updateImage_def)
next
  case (Some m)
  show ?thesis
  proof (cases "svg_isValid T m")
    case True
    then show ?thesis using Some by (simp add: generateImage_valid updateImage_def)
  next
    case False
    then show ?thesis using Some by (simp add: generateImage_invalid updateImage_def)
  qed
qed

lemma window_resized_frame:
  "generate_calls (window_resized T w sz) = generate_calls w"
  "svg_data (window_resized T w sz) = svg_data w"
  "image_attr (window_resized T w sz) = image_attr w"
  "parms (window_resized T w sz) = parms w"
  by (simp_all add: window_resized_def resizeEvent_def)

lemma resizes_frame:
  "generate_calls (foldl (window_resized T) w szs) = generate_calls w \<and>
   svg_data (foldl (window_resized T) w szs) = svg_data w \<and>
   image_attr (foldl (window_resized T) w szs) = image_attr w \<and>
   parms (foldl (window_resized T) w szs) = parms w"
  by (induction szs arbitrary: w) (simp_all add: window_resized_frame)

text \<open>
  C3. A resize event makes no call of the external generator and changes neither the
  cache nor the parameters: it only shows the cached image scaled to the size of the view,
  keeping the aspect ratio, with smooth transformation. The same holds for any number of
  resizes in a row.
\<close>

theorem resize_redisplays_cached_image:
  "generate_calls (resizeEvent T w) = generate_calls w \<and>
   svg_data (resizeEvent T w) = svg_data w \<and>
   image_attr (resizeEvent T w) = image_attr w \<and>
   parms (resizeEvent T w) = parms w \<and>
   pixmap (view (resizeEvent T w)) =
     (case image_attr w of
        None \<Rightarrow> None
      | Some img \<Rightarrow> Some (scaled T img (view_width (view w)) (view_height (view w))
                          KeepAspectRatio SmoothTransformation)) \<and>
   generate_calls (foldl (window_resized T) w szs) = generate_calls w \<and>
   image_attr (foldl (window_resized T) w szs) = image_attr w \<and>
   pixmap (view (window_resized T w (vw, vh))) =
     (case image_attr w of
        None \<Rightarrow> None
      | Some img \<Rightarrow> Some (scaled T img vw vh KeepAspectRatio SmoothTransformation))"
  using resizes_frame[of T w szs]
  by (simp add: resizeEvent_def setImage_def window_resized_def split: option.split)









section \<open>A window at work\<close>

lemma request_initial:
  "toRequest (initial_parms no_names) =
     \<lparr>width = PInt 1920, height = PInt 1080, scale = PFloat (8 / 10), rotate = PFloat (- 7),
      slop = PInt 5, background = ''#ffffff'', nodestroke = ''#cccccc'', nodefill = ''#cccccc'',
      wirestyle = Some ''bezier'', wirestroke = ''#cccccc'', connfill = ''#ffffff'',
      connstroke = ''#cccccc'', strokewidth = PFloat 2, wirewidth = PFloat 2,
      saturation = PFloat 1, lightness = PFloat (5 / 10), seed = PInt 42\<rparr>"
  by code_simp

lemma request_seed_43: "seed (toRequest seed_43) = PInt 43"
  by code_simp

lemma sample_toolkit_simps:
  "generator sample_toolkit r = (if seed r = PInt 42 then Some ''<svg/>'' else Some ''<broken'')"
  "svg_isValid sample_toolkit m = (m = ''<svg/>'')"
  "svg_render sample_toolkit m iw ih = (m, iw, ih)"
  "other_colors sample_toolkit = no_names"
  by (simp_all add: sample_toolkit_def)

lemma sample_window_cache:
  "svg_data sample_window = Some ''<svg/>''"
  "image_attr sample_window =
     Some \<lparr>img_width = 1920, img_height = 1080, img_pixels = (''<svg/>'', 1920, 1080)\<rparr>"
  "fst (updateImage sample_toolkit window_before_update) = Inr ()"
proof -
  have g: "generator sample_toolkit (toRequest (parms window_before_update)) = Some ''<svg/>''"
    by (simp add: window_before_update_def request_initial sample_toolkit_simps)
  have v: "svg_isValid sample_toolkit ''<svg/>''" by (simp add: sample_toolkit_simps)
  have p: "toRequest (parms window_before_update) = toRequest (initial_parms no_names)"
    by (simp add: window_before_update_def)
  show "svg_data sample_window = Some ''<svg/>''"
    unfolding sample_window_def updateImage_def generateImage_valid[OF g v] by simp
  show "image_attr sample_window =
     Some \<lparr>img_width = 1920, img_height = 1080, img_pixels = (''<svg/>'', 1920, 1080)\<rparr>"
    unfolding sample_window_def updateImage_def generateImage_valid[OF g v] p request_initial
    by (simp add: render_image_def sample_toolkit_simps)
  show "fst (updateImage sample_toolkit window_before_update) = Inr ()"
    unfolding updateImage_def generateImage_valid[OF g v] by simp
qed


theorem invalid_markup_counterexample:
  "fst (generateImage sample_toolkit sample_window_seed_43) = Inl NotValidSvg \<and>
   svg_data (snd (generateImage sample_toolkit sample_window_seed_43)) = None \<and>
   image_attr (snd (generateImage sample_toolkit sample_window_seed_43)) =
     Some \<lparr>img_width = 1920, img_height = 1080, img_pixels = (''<svg/>'', 1920, 1080)\<rparr>"
proof -
  have g: "generator sample_toolkit (toRequest (parms sample_window_seed_43)) = Some ''<broken''"
    by (simp add: sample_window_seed_43_def request_seed_43 sample_toolkit_simps)
  have v: "\<not> svg_isValid sample_toolkit ''<broken''" by (simp add: sample_toolkit_simps)
  show ?thesis
    unfolding generateImage_invalid[OF g v]
    by (simp add: sample_window_seed_43_def sample_window_cache)
qed

theorem invalid_markup_clears_markup_only_witness:
  "generator sample_toolkit (toRequest (parms sample_window_seed_43)) = Some ''<broken'' \<and>
   \<not> svg_isValid sample_toolkit ''<broken'' \<and>
   fst (updateImage sample_toolkit sample_window_seed_43) = Inl NotValidSvg \<and>
   svg_data (snd (updateImage sample_toolkit sample_window_seed_43)) = None \<and>
   image_attr (snd (updateImage sample_toolkit sample_window_seed_43)) =
     Some \<lparr>img_width = 1920, img_height = 1080, img_pixels = (''<svg/>'', 1920, 1080)\<rparr>"
proof -
  have g: "generator sample_toolkit (toRequest (parms sample_window_seed_43)) = Some ''<broken''"
    by (simp add: sample_window_seed_43_def request_seed_43 sample_toolkit_simps)
  have v: "\<not> svg_isValid sample_toolkit ''<broken''" by (simp add: sample_toolkit_simps)
  have i: "image_attr sample_window_seed_43 =
     Some \<lparr>img_width = 1920, img_height = 1080, img_pixels = (''<svg/>'', 1920, 1080)\<rparr>"
    by (simp add: sample_window_seed_43_def sample_window_cache)
  show ?thesis
    using g v i invalid_markup_clears_markup_only[OF g v] by simp
qed


end
